theory Spec2Isabelle
  imports Main
begin

section \<open>Persisted documents (index.js, lines 20-37)\<close>

text \<open>
  The two mongoose models of \<^verbatim>\<open>index.js\<close>. Every stored document carries the
  identifier \<^verbatim>\<open>_id\<close> that the persistence layer assigns to it (field \<open>oid\<close>
  below, since an Isabelle name cannot begin with an underscore).
  \<^verbatim>\<open>conversationSchema\<close> has the array \<^verbatim>\<open>participants\<close> and the string
  \<^verbatim>\<open>conversationId\<close> (declared \<^verbatim>\<open>unique: true\<close>); \<^verbatim>\<open>messageSchema\<close> has the
  six fields \<^verbatim>\<open>conversationId, senderUsername, receiverUsername, message, whosend,
  timestamp\<close>. A timestamp is the number \<^verbatim>\<open>Date.now\<close> returns (milliseconds).
\<close>

record Document =
  oid :: string

record Conversation = Document +
  participants :: "string list"
  conversationId :: string

record Message = Document +
  conversationId :: string
  senderUsername :: string
  receiverUsername :: string
  message :: string
  whosend :: string
  timestamp :: int

text \<open>The store: the two collections, each in its natural (insertion) order.\<close>

record db =
  conversations :: "Conversation list"
  messages :: "Message list"

definition empty_db :: db where
  "empty_db = \<lparr>conversations = [], messages = []\<rparr>"

section \<open>What a request handler reads from its environment\<close>

text \<open>
  A handler of \<^verbatim>\<open>index.js\<close> reads four things that are not in its request:
  the clock (\<^verbatim>\<open>Date.now\<close>, the schema default of \<^verbatim>\<open>timestamp\<close>), the identifier
  \<^verbatim>\<open>uuidv4()\<close> returns, the \<^verbatim>\<open>_id\<close> a fresh document gets, and whether the store
  answers: \<open>read_fault\<close> makes every query of the request reject, \<open>write_fault\<close>
  makes every \<^verbatim>\<open>save\<close> reject. They are the fields of \<open>env\<close>, one value per request.
\<close>

record env =
  now :: int
  uuid :: string
  objectId :: string
  read_fault :: bool
  write_fault :: bool

datatype db_error = StorageError | DuplicateKey

subsection \<open>The store's operations the handlers call\<close>

text \<open>
  \<^verbatim>\<open>{ participants: { $all: [x, y] } }\<close> selects the documents whose array holds every
  listed value; \<^verbatim>\<open>{ participants: x }\<close> those whose array holds \<open>x\<close>.
\<close>

definition participants_all :: "string list \<Rightarrow> Conversation \<Rightarrow> bool" where
  "participants_all qs c = list_all (\<lambda>q. q \<in> set (participants c)) qs"

definition participants_has :: "string \<Rightarrow> Conversation \<Rightarrow> bool" where
  "participants_has u c = (u \<in> set (participants c))"

definition Conversation_findOne ::
  "env \<Rightarrow> (Conversation \<Rightarrow> bool) \<Rightarrow> db \<Rightarrow> db_error + Conversation option" where
  "Conversation_findOne e q d =
     (if read_fault e then Inl StorageError else Inr (find q (conversations d)))"

definition Conversation_find ::
  "env \<Rightarrow> (Conversation \<Rightarrow> bool) \<Rightarrow> db \<Rightarrow> db_error + Conversation list" where
  "Conversation_find e q d =
     (if read_fault e then Inl StorageError else Inr (filter q (conversations d)))"

definition Message_find ::
  "env \<Rightarrow> (Message \<Rightarrow> bool) \<Rightarrow> db \<Rightarrow> db_error + Message list" where
  "Message_find e q d =
     (if read_fault e then Inl StorageError else Inr (filter q (messages d)))"

text \<open>
  \<^verbatim>\<open>save\<close> inserts the document at the end of its collection. It rejects when the
  store does not answer, and when a unique index is violated: \<^verbatim>\<open>_id\<close> in both
  collections, \<^verbatim>\<open>conversationId\<close> in the conversations (line 23).
\<close>

definition Conversation_save :: "env \<Rightarrow> Conversation \<Rightarrow> db \<Rightarrow> db_error + db" where
  "Conversation_save e c d =
     (if write_fault e then Inl StorageError
      else if oid c \<in> set (map oid (conversations d)) then Inl DuplicateKey
      else if Conversation.conversationId c
                \<in> set (map Conversation.conversationId (conversations d))
           then Inl DuplicateKey
      else Inr (d\<lparr>conversations := conversations d @ [c]\<rparr>))"

definition Message_save :: "env \<Rightarrow> Message \<Rightarrow> db \<Rightarrow> db_error + db" where
  "Message_save e m d =
     (if write_fault e then Inl StorageError
      else if oid m \<in> set (map oid (messages d)) then Inl DuplicateKey
      else Inr (d\<lparr>messages := messages d @ [m]\<rparr>))"

section \<open>The realtime layer (Socket.IO as index.js uses it)\<close>

text \<open>
  A connected socket has an identifier and the rooms it is in; on connection it is in
  the room named by its own identifier, and \<^verbatim>\<open>socket.join(room)\<close> adds a room.
  \<^verbatim>\<open>io.to(room).emit(ev, x)\<close> sends to every socket in the room;
  \<^verbatim>\<open>socket.to(room).emit(ev, x)\<close> sends to every socket in the room except the
  emitting one, as the library documents it (\<open>except\<close> below lists the identifiers
  left out). A room name that is \<^verbatim>\<open>undefined\<close> (\<open>None\<close>) names no room.
  The disconnect handler of \<^verbatim>\<open>index.js\<close> only logs; the library drops the socket
  and with it its memberships.
\<close>

record socket =
  socket_id :: string
  rooms :: "string list"

type_synonym io = "socket list"

text \<open>
  The object a client sends with a signaling event: the three address fields the
  handlers read, each possibly absent, and the rest of the object (the session
  description or the candidate), which the server never looks at.
\<close>

record signal =
  receiverId :: "string option"
  callerId :: "string option"
  targetId :: "string option"
  content :: string

datatype payload = MessagePayload Message | SignalPayload signal

text \<open>A delivery: the receiving socket's identifier, the event name, the payload.\<close>

type_synonym delivery = "string \<times> string \<times> payload"

definition io_connect :: "string \<Rightarrow> io \<Rightarrow> io" where
  "io_connect sid sockets = sockets @ [\<lparr>socket_id = sid, rooms = [sid]\<rparr>]"

definition io_disconnect :: "string \<Rightarrow> io \<Rightarrow> io" where
  "io_disconnect sid sockets = filter (\<lambda>s. socket_id s \<noteq> sid) sockets"

definition socket_join :: "string \<Rightarrow> string \<Rightarrow> io \<Rightarrow> io" where
  "socket_join sid room sockets =
     map (\<lambda>s. if socket_id s = sid \<and> room \<notin> set (rooms s)
               then s\<lparr>rooms := rooms s @ [room]\<rparr> else s) sockets"

definition in_room :: "string option \<Rightarrow> socket \<Rightarrow> bool" where
  "in_room room s = (case room of None \<Rightarrow> False | Some r \<Rightarrow> r \<in> set (rooms s))"

definition adapter_broadcast ::
  "io \<Rightarrow> string option \<Rightarrow> string list \<Rightarrow> string \<Rightarrow> payload \<Rightarrow> delivery list" where
  "adapter_broadcast sockets room except ev x =
     map (\<lambda>s. (socket_id s, ev, x))
       (filter (\<lambda>s. in_room room s \<and> socket_id s \<notin> set except) sockets)"

definition io_to_emit :: "io \<Rightarrow> string option \<Rightarrow> string \<Rightarrow> payload \<Rightarrow> delivery list" where
  "io_to_emit sockets room ev x = adapter_broadcast sockets room [] ev x"

definition socket_to_emit ::
  "io \<Rightarrow> string \<Rightarrow> string option \<Rightarrow> string \<Rightarrow> payload \<Rightarrow> delivery list" where
  "socket_to_emit sockets sid room ev x = adapter_broadcast sockets room [sid] ev x"

subsection \<open>The socket event handlers (lines 141-172)\<close>

definition on_joinConversation :: "string \<Rightarrow> string \<Rightarrow> io \<Rightarrow> io" where
  "on_joinConversation sid cid sockets = socket_join sid cid sockets"

definition on_offer :: "string \<Rightarrow> signal \<Rightarrow> io \<Rightarrow> delivery list" where
  "on_offer sid data sockets =
     socket_to_emit sockets sid (receiverId data) ''offer'' (SignalPayload data)"

definition on_answer :: "string \<Rightarrow> signal \<Rightarrow> io \<Rightarrow> delivery list" where
  "on_answer sid data sockets =
     socket_to_emit sockets sid (callerId data) ''answer'' (SignalPayload data)"

definition on_ice_candidate :: "string \<Rightarrow> signal \<Rightarrow> io \<Rightarrow> delivery list" where
  "on_ice_candidate sid data sockets =
     socket_to_emit sockets sid (targetId data) ''ice-candidate'' (SignalPayload data)"

text \<open>The three signaling events as one relay, to state a property of all of them.\<close>

datatype event_kind = Offer | Answer | IceCandidate

fun event_name :: "event_kind \<Rightarrow> string" where
  "event_name Offer = ''offer''"
| "event_name Answer = ''answer''"
| "event_name IceCandidate = ''ice-candidate''"

fun target_address :: "event_kind \<Rightarrow> signal \<Rightarrow> string option" where
  "target_address Offer data = receiverId data"
| "target_address Answer data = callerId data"
| "target_address IceCandidate data = targetId data"

fun relay :: "event_kind \<Rightarrow> string \<Rightarrow> signal \<Rightarrow> io \<Rightarrow> delivery list" where
  "relay Offer sid data sockets = on_offer sid data sockets"
| "relay Answer sid data sockets = on_answer sid data sockets"
| "relay IceCandidate sid data sockets = on_ice_candidate sid data sockets"

section \<open>The HTTP handlers\<close>

text \<open>
  What a handler sends back: a status and a JSON body, or nothing at all when the
  handler's promise rejects (an exception no \<^verbatim>\<open>catch\<close> of the handler covers).
\<close>

datatype list_entry = ListEntry string "string option"

datatype json =
    ErrorMessage string
  | ErrorDetail string db_error
  | ConversationIdBody string
  | MessageList "Message list"
  | ConversationList "list_entry list"
  | MessageBody Message

datatype http_result = Response nat json | Unhandled db_error

text \<open>
  A field of a JSON body is absent (\<open>None\<close>) or a string. \<^verbatim>\<open>!x\<close> holds of an
  absent field and of the empty string.
\<close>

fun falsy :: "string option \<Rightarrow> bool" where
  "falsy None = True"
| "falsy (Some s) = (s = [])"

fun str :: "string option \<Rightarrow> string" where
  "str None = []"
| "str (Some s) = s"

subsection \<open>POST /api/conversations (lines 45-75)\<close>

text \<open>
  The handler awaits the store twice: the lookup (line 53), which no \<^verbatim>\<open>try\<close>
  encloses, and the \<^verbatim>\<open>save\<close> (line 66) inside \<^verbatim>\<open>try\<close>. An exception of the
  lookup rejects the handler's promise, and Express sends no response for it. Other requests run
  between the two, so the handler is two steps: the first ends the request or leaves
  the new document waiting to be saved.
\<close>

datatype suspended = Finished http_result | AwaitSave Conversation

definition post_conversations_lookup ::
  "env \<Rightarrow> string option \<Rightarrow> string option \<Rightarrow> db \<Rightarrow> suspended" where
  "post_conversations_lookup e sender receiver d =
     (if falsy sender \<or> falsy receiver
      then Finished (Response 400 (ErrorMessage ''Sender and receiver are required''))
      else case Conversation_findOne e (participants_all [str sender, str receiver]) d of
             Inl err \<Rightarrow> Finished (Unhandled err)
           | Inr (Some conversation) \<Rightarrow>
               Finished (Response 200
                 (ConversationIdBody (Conversation.conversationId conversation)))
           | Inr None \<Rightarrow>
               AwaitSave \<lparr>oid = objectId e,
                          participants = [str sender, str receiver],
                          conversationId = uuid e\<rparr>)"

definition post_conversations_save :: "env \<Rightarrow> Conversation \<Rightarrow> db \<Rightarrow> http_result \<times> db" where
  "post_conversations_save e conversation d =
     (case Conversation_save e conversation d of
        Inr d' \<Rightarrow>
          (Response 200 (ConversationIdBody (Conversation.conversationId conversation)), d')
      | Inl err \<Rightarrow> (Response 500 (ErrorMessage ''Error creating conversation''), d))"

text \<open>Resuming a suspended request on the store as it is by then.\<close>

definition post_conversations_resume :: "env \<Rightarrow> suspended \<Rightarrow> db \<Rightarrow> http_result \<times> db" where
  "post_conversations_resume e s d =
     (case s of
        Finished r \<Rightarrow> (r, d)
      | AwaitSave conversation \<Rightarrow> post_conversations_save e conversation d)"

text \<open>One request running alone: nothing happens between its two steps.\<close>

definition post_conversations ::
  "env \<Rightarrow> string option \<Rightarrow> string option \<Rightarrow> db \<Rightarrow> http_result \<times> db" where
  "post_conversations e sender receiver d =
     post_conversations_resume e (post_conversations_lookup e sender receiver d) d"

text \<open>
  Two requests for the same pair, one in each argument order, both arriving before
  either has saved: the second request's lookup runs while the first is suspended at
  its \<^verbatim>\<open>save\<close>; then each is resumed in turn.
\<close>

definition first_contact_race ::
  "env \<Rightarrow> env \<Rightarrow> string option \<Rightarrow> string option \<Rightarrow> db \<Rightarrow> http_result \<times> http_result \<times> db" where
  "first_contact_race e1 e2 a b d =
     (let s1 = post_conversations_lookup e1 a b d;
          s2 = post_conversations_lookup e2 b a d;
          (r1, d1) = post_conversations_resume e1 s1 d;
          (r2, d2) = post_conversations_resume e2 s2 d1
      in (r1, r2, d2))"

subsection \<open>GET /api/messages/conversation/:conversationId (lines 78-86)\<close>

definition get_messages :: "env \<Rightarrow> string \<Rightarrow> db \<Rightarrow> http_result" where
  "get_messages e cid d =
     (case Message_find e (\<lambda>m. Message.conversationId m = cid) d of
        Inr ms \<Rightarrow> Response 200 (MessageList ms)
      | Inl err \<Rightarrow> Response 500 (ErrorMessage ''Error fetching messages''))"

subsection \<open>GET /api/messages/list/:senderUsername (lines 89-114)\<close>

definition get_list :: "env \<Rightarrow> string \<Rightarrow> db \<Rightarrow> http_result" where
  "get_list e sender d =
     (case Conversation_find e (participants_has sender) d of
        Inr userslist \<Rightarrow>
          Response 200 (ConversationList
            (map (\<lambda>convo. ListEntry (Conversation.conversationId convo)
                            (find (\<lambda>participant. participant \<noteq> sender) (participants convo)))
               userslist))
      | Inl err \<Rightarrow>
          Response 500 (ErrorDetail ''Error fetching messages'' err))"

subsection \<open>POST /api/messages (lines 119-138)\<close>

text \<open>
  The handler answers, leaves a store and emits events. \<open>sockets\<close> are the
  connections at the moment of the \<^verbatim>\<open>emit\<close>, which the handler reaches only after
  the \<^verbatim>\<open>save\<close> has returned.
\<close>

definition new_Message ::
  "env \<Rightarrow> string \<Rightarrow> string \<Rightarrow> string \<Rightarrow> string \<Rightarrow> Message" where
  "new_Message e cid sender receiver body =
     \<lparr>oid = objectId e, conversationId = cid, senderUsername = sender,
      receiverUsername = receiver, message = body, whosend = sender,
      timestamp = now e\<rparr>"

definition post_messages ::
  "env \<Rightarrow> string option \<Rightarrow> string option \<Rightarrow> string option \<Rightarrow> string option \<Rightarrow>
   db \<Rightarrow> io \<Rightarrow> http_result \<times> db \<times> delivery list" where
  "post_messages e cid sender receiver body d sockets =
     (if falsy cid \<or> falsy sender \<or> falsy receiver \<or> falsy body
      then (Response 400
              (ErrorMessage ''Conversation ID, sender, receiver, and message are required''),
            d, [])
      else let newMessage = new_Message e (str cid) (str sender) (str receiver) (str body)
           in case Message_save e newMessage d of
                Inr d' \<Rightarrow>
                  (Response 200 (MessageBody newMessage), d',
                   io_to_emit sockets cid ''newMessage'' (MessagePayload newMessage))
              | Inl err \<Rightarrow> (Response 500 (ErrorMessage ''Error saving message''), d, []))"

section \<open>Concrete requests and states\<close>

text \<open>
  The inputs the closed theorems below are evaluated at: a healthy environment with a
  given clock reading, three connections of which two joined room \<open>X\<close>, and the
  stores that the handlers themselves produce from the empty one.
\<close>

definition env_at :: "int \<Rightarrow> string \<Rightarrow> env" where
  "env_at t i = \<lparr>now = t, uuid = ''uuid-'' @ i, objectId = ''oid-'' @ i,
                 read_fault = False, write_fault = False\<rparr>"

definition db_after :: "http_result \<times> db \<times> delivery list \<Rightarrow> db" where
  "db_after r = fst (snd r)"

definition two_sockets :: io where
  "two_sockets = io_connect ''B'' (io_connect ''A'' [])"

definition room_X :: io where
  "room_X = on_joinConversation ''B'' ''X'' (on_joinConversation ''A'' ''X''
              (io_connect ''C'' (io_connect ''B'' (io_connect ''A'' []))))"

definition offer_to :: "string \<Rightarrow> signal" where
  "offer_to r = \<lparr>receiverId = Some r, callerId = None, targetId = None, content = ''sdp''\<rparr>"

definition alice_bob_db :: db where
  "alice_bob_db = \<lparr>conversations =
        [\<lparr>oid = ''oid-1'', participants = [''alice'', ''bob''], conversationId = ''uuid-1''\<rparr>],
      messages = []\<rparr>"

definition self_chat_db :: db where
  "self_chat_db =
     snd (post_conversations (env_at 1000 ''1'') (Some ''alice'') (Some ''alice'') empty_db)"

definition hi_message :: Message where
  "hi_message = \<lparr>oid = ''oid-1'', conversationId = ''X'', senderUsername = ''alice'',
                  receiverUsername = ''bob'', message = ''hi'', whosend = ''alice'',
                  timestamp = 2000\<rparr>"

definition hello_message :: Message where
  "hello_message = \<lparr>oid = ''oid-2'', conversationId = ''X'', senderUsername = ''bob'',
                     receiverUsername = ''alice'', message = ''hello'', whosend = ''bob'',
                     timestamp = 1000\<rparr>"

text \<open>
  Two messages sent one after the other, the clock reading 2000 at the first request
  and 1000 at the second (\<^verbatim>\<open>Date.now\<close> is the wall clock, which can be set back).
\<close>

definition clock_back_db :: db where
  "clock_back_db =
     db_after (post_messages (env_at 1000 ''2'') (Some ''X'') (Some ''bob'') (Some ''alice'')
                 (Some ''hello'')
                 (db_after (post_messages (env_at 2000 ''1'') (Some ''X'') (Some ''alice'')
                              (Some ''bob'') (Some ''hi'') empty_db []))
                 [])"

section \<open>Evaluation lemmas\<close>

lemmas message_eval =
  post_messages_def new_Message_def Message_save_def io_to_emit_def adapter_broadcast_def
  in_room_def env_at_def empty_db_def db_after_def io_connect_def on_joinConversation_def
  socket_join_def Let_def

lemmas conversation_eval =
  post_conversations_def post_conversations_resume_def post_conversations_lookup_def
  post_conversations_save_def Conversation_findOne_def Conversation_save_def
  participants_all_def env_at_def empty_db_def

lemma first_contact:
  "post_conversations (env_at 1000 ''1'') (Some ''alice'') (Some ''bob'') empty_db
     = (Response 200 (ConversationIdBody ''uuid-1''), alice_bob_db)"
  by (simp add: conversation_eval alice_bob_db_def)

lemma self_chat_db_eq:
  "self_chat_db = \<lparr>conversations =
        [\<lparr>oid = ''oid-1'', participants = [''alice'', ''alice''], conversationId = ''uuid-1''\<rparr>],
      messages = []\<rparr>"
  by (simp add: self_chat_db_def conversation_eval)

lemma send_hi:
  "post_messages (env_at 2000 ''1'') (Some ''X'') (Some ''alice'') (Some ''bob'') (Some ''hi'')
     empty_db room_X
   = (Response 200 (MessageBody hi_message),
      \<lparr>conversations = [], messages = [hi_message]\<rparr>,
      [(''A'', ''newMessage'', MessagePayload hi_message),
       (''B'', ''newMessage'', MessagePayload hi_message)])"
  by (simp add: message_eval room_X_def hi_message_def)

lemma clock_back_db_eq:
  "clock_back_db = \<lparr>conversations = [], messages = [hi_message, hello_message]\<rparr>"
  by (simp add: clock_back_db_def message_eval hi_message_def hello_message_def)

section \<open>The conversation directory\<close>

lemma participants_all_swap: "participants_all [x, y] = participants_all [y, x]"
  by (auto simp: participants_all_def fun_eq_iff)

lemma participants_has_eq: "participants_has u = (\<lambda>c. u \<in> set (participants c))"
  by (simp add: fun_eq_iff participants_has_def)

lemma find_snoc_new: "find P xs = None \<Longrightarrow> P y \<Longrightarrow> find P (xs @ [y]) = Some y"
  by (induction xs) (auto split: if_splits)

lemma Conversation_save_Inr:
  "Conversation_save e c d = Inr d' \<Longrightarrow> d' = d\<lparr>conversations := conversations d @ [c]\<rparr>"
  by (auto simp: Conversation_save_def split: if_splits)

text \<open>
  After a successful request the lookup for the pair finds a record, and the
  identifier the request answered is that record's: the one found, or the one just
  inserted at the end of a collection that had no match.
\<close>

lemma lookup_after_success:
  assumes "post_conversations e (Some a) (Some b) d = (Response 200 (ConversationIdBody cid), d1)"
  shows "\<exists>c. find (participants_all [a, b]) (conversations d1) = Some c
             \<and> Conversation.conversationId c = cid"
proof (cases "find (participants_all [a, b]) (conversations d)")
  case None
  with assms show ?thesis
    by (auto simp: post_conversations_def post_conversations_resume_def
          post_conversations_lookup_def post_conversations_save_def Conversation_findOne_def
          participants_all_def find_snoc_new
        split: if_splits sum.splits dest!: Conversation_save_Inr)
next
  case (Some c)
  with assms show ?thesis
    by (auto simp: post_conversations_def post_conversations_resume_def
          post_conversations_lookup_def Conversation_findOne_def split: if_splits)
qed

lemma success_nonempty:
  "post_conversations e (Some a) (Some b) d = (Response 200 r, d1) \<Longrightarrow> a \<noteq> [] \<and> b \<noteq> []"
  by (auto simp: post_conversations_def post_conversations_resume_def
        post_conversations_lookup_def split: if_splits)

lemma found_returns_it:
  assumes "find (participants_all [a, b]) (conversations d) = Some c"
      and "a \<noteq> []" "b \<noteq> []" "\<not> read_fault e"
  shows "post_conversations e (Some a) (Some b) d
           = (Response 200 (ConversationIdBody (Conversation.conversationId c)), d)"
  using assms
  by (simp add: post_conversations_def post_conversations_resume_def
        post_conversations_lookup_def Conversation_findOne_def)

lemma success_store:
  assumes "post_conversations e (Some a) (Some b) d = (Response 200 (ConversationIdBody cid), d1)"
  shows "d1 = d
       \<or> (find (participants_all [a, b]) (conversations d) = None
          \<and> d1 = d\<lparr>conversations := conversations d
                      @ [\<lparr>oid = objectId e, participants = [a, b], conversationId = cid\<rparr>]\<rparr>)"
  using assms
  by (auto simp: post_conversations_def post_conversations_resume_def
        post_conversations_lookup_def post_conversations_save_def Conversation_findOne_def
      split: if_splits sum.splits option.splits dest!: Conversation_save_Inr)

text \<open>
  A request with two non-empty names is answered 200 whenever the store answers and
  the identifiers generated for a new record are not taken.
\<close>

lemma post_conversations_answers:
  assumes "a \<noteq> []" "b \<noteq> []" "\<not> read_fault e" "\<not> write_fault e"
      and "objectId e \<notin> set (map oid (conversations d))"
      and "uuid e \<notin> set (map Conversation.conversationId (conversations d))"
  shows "\<exists>cid d1. post_conversations e (Some a) (Some b) d
                    = (Response 200 (ConversationIdBody cid), d1)"
  using assms
  by (cases "find (participants_all [a, b]) (conversations d)")
     (simp_all add: post_conversations_def post_conversations_resume_def
        post_conversations_lookup_def post_conversations_save_def Conversation_findOne_def
        Conversation_save_def)

text \<open>
  C1. Once create-or-get has answered a pair \<open>(a, b)\<close> with an identifier, that
  identifier is the \<^verbatim>\<open>conversationId\<close> of a persisted Conversation whose
  participants hold both \<open>a\<close> and \<open>b\<close>: the record the lookup found, in which case
  the store is as before, or the one record \<open>[a, b]\<close> the request appended when no
  stored record held both. Any later request for the pair that reaches the store, in
  either argument order and whatever fresh identifiers it has at hand, answers 200
  with the same identifier and leaves the store as it was (no record is created).
  A successful first request implies that both names are non-empty.
\<close>

theorem resolve_order_insensitive_idempotent:
  assumes "post_conversations e (Some a) (Some b) d = (Response 200 (ConversationIdBody cid), d1)"
      and "\<not> read_fault e'"
  shows "post_conversations e' (Some b) (Some a) d1 = (Response 200 (ConversationIdBody cid), d1)
       \<and> post_conversations e' (Some a) (Some b) d1 = (Response 200 (ConversationIdBody cid), d1)
       \<and> (\<exists>c\<in>set (conversations d1). Conversation.conversationId c = cid
             \<and> a \<in> set (participants c) \<and> b \<in> set (participants c))
       \<and> (d1 = d
          \<or> (find (participants_all [a, b]) (conversations d) = None
             \<and> d1 = d\<lparr>conversations := conversations d
                  @ [\<lparr>oid = objectId e, participants = [a, b], conversationId = cid\<rparr>]\<rparr>))"
proof -
  from lookup_after_success [OF assms(1)] obtain c
    where c: "find (participants_all [a, b]) (conversations d1) = Some c"
      and cid: "Conversation.conversationId c = cid" by blast
  from success_nonempty [OF assms(1)] have ne: "a \<noteq> []" "b \<noteq> []" by simp_all
  from c have c': "find (participants_all [b, a]) (conversations d1) = Some c"
    by (simp add: participants_all_swap [of b a])
  from c have "c \<in> set (conversations d1)" and "participants_all [a, b] c"
    by (auto simp: find_Some_iff)
  with cid have rec: "\<exists>c\<in>set (conversations d1). Conversation.conversationId c = cid
             \<and> a \<in> set (participants c) \<and> b \<in> set (participants c)"
    by (auto simp: participants_all_def)
  from found_returns_it [OF c ne assms(2)] found_returns_it [OF c' ne(2) ne(1) assms(2)] cid
  have "post_conversations e' (Some b) (Some a) d1 = (Response 200 (ConversationIdBody cid), d1)"
    and "post_conversations e' (Some a) (Some b) d1 = (Response 200 (ConversationIdBody cid), d1)"
    by simp_all
  with rec success_store [OF assms(1)] show ?thesis by blast
qed

theorem resolve_order_insensitive_idempotent_witness:
  "post_conversations (env_at 2000 ''2'') (Some ''bob'') (Some ''alice'') alice_bob_db
     = (Response 200 (ConversationIdBody ''uuid-1''), alice_bob_db)
   \<and> post_conversations (env_at 2000 ''2'') (Some ''alice'') (Some ''bob'') alice_bob_db
     = (Response 200 (ConversationIdBody ''uuid-1''), alice_bob_db)
   \<and> conversations alice_bob_db
     = [\<lparr>oid = ''oid-1'', participants = [''alice'', ''bob''], conversationId = ''uuid-1''\<rparr>]
   \<and> post_conversations (env_at 2000 ''2'') (Some ''alice'') (Some ''carol'') alice_bob_db
     = (Response 200 (ConversationIdBody ''uuid-2''),
        \<lparr>conversations =
           [\<lparr>oid = ''oid-1'', participants = [''alice'', ''bob''], conversationId = ''uuid-1''\<rparr>,
            \<lparr>oid = ''oid-2'', participants = [''alice'', ''carol''],
               conversationId = ''uuid-2''\<rparr>],
         messages = []\<rparr>)"
proof -
  have "\<not> read_fault (env_at 2000 ''2'')" by (simp add: env_at_def)
  from resolve_order_insensitive_idempotent [OF first_contact this]
  have "post_conversations (env_at 2000 ''2'') (Some ''bob'') (Some ''alice'') alice_bob_db
          = (Response 200 (ConversationIdBody ''uuid-1''), alice_bob_db)"
    and "post_conversations (env_at 2000 ''2'') (Some ''alice'') (Some ''bob'') alice_bob_db
          = (Response 200 (ConversationIdBody ''uuid-1''), alice_bob_db)"
    by simp_all
  moreover have "post_conversations (env_at 2000 ''2'') (Some ''alice'') (Some ''carol'')
                   alice_bob_db
     = (Response 200 (ConversationIdBody ''uuid-2''),
        \<lparr>conversations =
           [\<lparr>oid = ''oid-1'', participants = [''alice'', ''bob''], conversationId = ''uuid-1''\<rparr>,
            \<lparr>oid = ''oid-2'', participants = [''alice'', ''carol''],
               conversationId = ''uuid-2''\<rparr>],
         messages = []\<rparr>)"
    by (simp add: conversation_eval alice_bob_db_def)
  ultimately show ?thesis by (simp add: alice_bob_db_def)
qed

text \<open>
  C2. The claim is that two first-contact requests for one pair in flight together
  persist exactly one Conversation. Evaluated on the empty store with the requests
  \<open>(alice, bob)\<close> and \<open>(bob, alice)\<close>, both lookups running before either save: both
  requests answer 200, with different identifiers, and the store holds two records for
  the pair. The only unique index is on \<^verbatim>\<open>conversationId\<close>, which the two fresh
  identifiers do not violate.
\<close>

theorem first_contact_race_duplicates:
  "first_contact_race (env_at 1000 ''1'') (env_at 1001 ''2'') (Some ''alice'') (Some ''bob'')
       empty_db
     = (Response 200 (ConversationIdBody ''uuid-1''),
        Response 200 (ConversationIdBody ''uuid-2''),
        \<lparr>conversations =
           [\<lparr>oid = ''oid-1'', participants = [''alice'', ''bob''], conversationId = ''uuid-1''\<rparr>,
            \<lparr>oid = ''oid-2'', participants = [''bob'', ''alice''], conversationId = ''uuid-2''\<rparr>],
         messages = []\<rparr>)"
  by (simp add: first_contact_race_def conversation_eval)

text \<open>
  Requests that run one after the other never store two records with the same set of
  participants: a record is inserted only when no stored one holds both names.
\<close>

lemma post_conversations_keeps_pairs_distinct:
  assumes "distinct (map (\<lambda>c. set (participants c)) (conversations d))"
  shows "distinct (map (\<lambda>c. set (participants c))
           (conversations (snd (post_conversations e a b d))))"
proof (cases "post_conversations_lookup e a b d")
  case (Finished r)
  with assms show ?thesis
    by (simp add: post_conversations_def post_conversations_resume_def)
next
  case (AwaitSave c)
  then have none: "find (participants_all [str a, str b]) (conversations d) = None"
    and c: "participants c = [str a, str b]"
    by (auto simp: post_conversations_lookup_def Conversation_findOne_def
          split: if_splits option.splits)
  from none have "set (participants c) \<notin> (\<lambda>c. set (participants c)) ` set (conversations d)"
    unfolding c by (auto simp: find_None_iff participants_all_def)
  with assms AwaitSave show ?thesis
    by (cases "Conversation_save e c d")
       (auto simp: post_conversations_def post_conversations_resume_def
          post_conversations_save_def dest!: Conversation_save_Inr)
qed

text \<open>
  C6. The claim is that a storage failure during the existence lookup is answered
  with 500. Evaluated with a store that rejects reads: the handler ends with the
  lookup's exception unhandled and sends no response, whatever the store holds.
\<close>

theorem lookup_failure_unanswered:
  "post_conversations (e\<lparr>read_fault := True\<rparr>) (Some ''alice'') (Some ''bob'') d
     = (Unhandled StorageError, d)"
  by (simp add: post_conversations_def post_conversations_resume_def
        post_conversations_lookup_def Conversation_findOne_def)

text \<open>
  The other half of the error handling does what is claimed: a failure of the
  \<^verbatim>\<open>save\<close> is answered with 500 and nothing is stored.
\<close>

lemma save_failure_answered_500:
  assumes "post_conversations_lookup e a b d = AwaitSave c"
      and "Conversation_save e c d = Inl err"
  shows "post_conversations e a b d
           = (Response 500 (ErrorMessage ''Error creating conversation''), d)"
  using assms
  by (simp add: post_conversations_def post_conversations_resume_def
        post_conversations_save_def)

section \<open>Listing the conversations of a user\<close>

text \<open>
  C9, as stated, fails for a conversation of a user with themselves, which
  create-or-get accepts: the store below is what \<open>post_conversations\<close> makes of the
  request \<open>(alice, alice)\<close> on the empty store, the other entry of its pair is
  \<open>alice\<close>, and the entry listed for \<open>alice\<close> carries no counterpart.
\<close>

theorem get_list_self_chat_counterexample:
  "conversations self_chat_db =
     [\<lparr>oid = ''oid-1'', participants = [''alice'', ''alice''], conversationId = ''uuid-1''\<rparr>]
   \<and> get_list (env_at 2000 ''2'') ''alice'' self_chat_db
       = Response 200 (ConversationList [ListEntry ''uuid-1'' None])"
  by (simp add: self_chat_db_eq get_list_def Conversation_find_def participants_has_def
        env_at_def)

text \<open>
  C9, amended. When the store can be read, the list for \<open>u\<close> has one entry for each
  Conversation that holds \<open>u\<close>, in store order and with that Conversation's
  identifier; for a Conversation of two different participants the entry carries the
  other one; and every entry comes from a Conversation that holds \<open>u\<close>, with the first
  participant different from \<open>u\<close> as its counterpart.
\<close>

theorem get_list_counterparts:
  assumes "\<not> read_fault e"
  shows "\<exists>es. get_list e u d = Response 200 (ConversationList es)
          \<and> map (\<lambda>x. case x of ListEntry i p \<Rightarrow> i) es
              = map Conversation.conversationId
                  (filter (\<lambda>c. u \<in> set (participants c)) (conversations d))
          \<and> (\<forall>c\<in>set (conversations d). \<forall>p q. participants c = [p, q] \<and> p \<noteq> q \<longrightarrow>
                (u = p \<longrightarrow> ListEntry (Conversation.conversationId c) (Some q) \<in> set es)
              \<and> (u = q \<longrightarrow> ListEntry (Conversation.conversationId c) (Some p) \<in> set es))
          \<and> (\<forall>x\<in>set es. \<exists>c\<in>set (conversations d). u \<in> set (participants c)
                \<and> x = ListEntry (Conversation.conversationId c)
                                 (find (\<lambda>p. p \<noteq> u) (participants c)))"
  using assms
  by (auto simp: get_list_def Conversation_find_def participants_has_eq comp_def image_iff
      intro!: bexI)

theorem get_list_counterparts_witness:
  "get_list (env_at 2000 ''2'') ''alice'' alice_bob_db
     = Response 200 (ConversationList [ListEntry ''uuid-1'' (Some ''bob'')])
   \<and> get_list (env_at 2000 ''2'') ''bob'' alice_bob_db
     = Response 200 (ConversationList [ListEntry ''uuid-1'' (Some ''alice'')])
   \<and> get_list (env_at 2000 ''2'') ''carol'' alice_bob_db = Response 200 (ConversationList [])"
proof -
  have h: "\<not> read_fault (env_at 2000 ''2'')" by (simp add: env_at_def)
  from get_list_counterparts [OF h, of "''alice''" alice_bob_db]
       get_list_counterparts [OF h, of "''bob''" alice_bob_db]
       get_list_counterparts [OF h, of "''carol''" alice_bob_db]
  show ?thesis
    by (simp add: alice_bob_db_def get_list_def Conversation_find_def participants_has_def
          env_at_def)
qed

section \<open>The message store\<close>

lemma post_messages_200:
  assumes "post_messages e cid sender receiver body d sockets = (Response 200 r, d', out)"
  shows "\<not> falsy cid \<and> \<not> falsy sender \<and> \<not> falsy receiver \<and> \<not> falsy body
       \<and> r = MessageBody (new_Message e (str cid) (str sender) (str receiver) (str body))
       \<and> d' = d\<lparr>messages := messages d
                   @ [new_Message e (str cid) (str sender) (str receiver) (str body)]\<rparr>
       \<and> out = io_to_emit sockets cid ''newMessage''
           (MessagePayload (new_Message e (str cid) (str sender) (str receiver) (str body)))"
  using assms
  by (auto simp: post_messages_def Message_save_def Let_def split: if_splits sum.splits)



text \<open>
  C7. If the four fields are present and saving the new Message fails (the store
  rejects the write, or its \<^verbatim>\<open>_id\<close> is taken), send-message answers 500 with
  \<^verbatim>\<open>Error saving message\<close>, the store is unchanged and no event is emitted to
  anyone.
\<close>

theorem save_failure_500_no_event:
  assumes "\<not> falsy cid" "\<not> falsy sender" "\<not> falsy receiver" "\<not> falsy body"
      and "Message_save e (new_Message e (str cid) (str sender) (str receiver) (str body)) d
             = Inl err"
  shows "post_messages e cid sender receiver body d sockets
           = (Response 500 (ErrorMessage ''Error saving message''), d, [])"
  using assms by (simp add: post_messages_def)

theorem save_failure_500_no_event_witness:
  "post_messages ((env_at 2000 ''1'')\<lparr>write_fault := True\<rparr>) (Some ''X'') (Some ''alice'')
       (Some ''bob'') (Some ''hi'') empty_db room_X
     = (Response 500 (ErrorMessage ''Error saving message''), empty_db, [])"
proof -
  have "Message_save ((env_at 2000 ''1'')\<lparr>write_fault := True\<rparr>)
          (new_Message ((env_at 2000 ''1'')\<lparr>write_fault := True\<rparr>) (str (Some ''X''))
             (str (Some ''alice'')) (str (Some ''bob'')) (str (Some ''hi''))) empty_db
        = Inl StorageError"
    by (simp add: Message_save_def env_at_def)
  from save_failure_500_no_event [OF _ _ _ _ this] show ?thesis by simp
qed

text \<open>
  C8. A send-message call with the four fields present that answers 200 answers with
  the stored record: it is the one record appended to the messages, its
  \<^verbatim>\<open>conversationId, senderUsername, receiverUsername, message\<close> are the request's,
  \<^verbatim>\<open>whosend\<close> is the sender's username, \<^verbatim>\<open>timestamp\<close> is the clock reading of the
  request, and it carries the identifier assigned to it.
\<close>

theorem stored_message_fields:
  assumes "post_messages e (Some c) (Some s) (Some rc) (Some b) d sockets
             = (Response 200 r, d', out)"
  shows "\<exists>m. r = MessageBody m \<and> messages d' = messages d @ [m]
           \<and> Message.conversationId m = c \<and> senderUsername m = s
           \<and> receiverUsername m = rc \<and> message m = b \<and> whosend m = s
           \<and> timestamp m = now e \<and> oid m = objectId e"
  using post_messages_200 [OF assms] by (simp add: new_Message_def)

theorem stored_message_fields_witness:
  "fst (post_messages (env_at 2000 ''1'') (Some ''X'') (Some ''alice'') (Some ''bob'')
          (Some ''hi'') empty_db room_X) = Response 200 (MessageBody hi_message)
   \<and> senderUsername hi_message = ''alice'' \<and> whosend hi_message = ''alice''
   \<and> timestamp hi_message = now (env_at 2000 ''1'')"
  using stored_message_fields [OF send_hi] send_hi by simp

text \<open>
  C5, as stated, fails: the query has no sort, so it answers in the store's order.
  In the store that two send-message requests leave when the clock read 2000 at the
  first and 1000 at the second, the list for the conversation is not ascending by
  timestamp.
\<close>

theorem get_messages_unsorted_counterexample:
  "get_messages (env_at 3000 ''3'') ''X'' clock_back_db
     = Response 200 (MessageList [hi_message, hello_message])
   \<and> timestamp hello_message < timestamp hi_message"
  by (simp add: clock_back_db_eq get_messages_def Message_find_def env_at_def
        hi_message_def hello_message_def)

text \<open>
  C5, amended. When the store can be read, list-messages answers 200 with the
  Messages of the conversation in the order the store holds them; that sequence is
  ascending by timestamp whenever the stored log is; and for a conversation
  identifier that no Message carries it is empty.
\<close>

theorem get_messages_store_order:
  assumes "\<not> read_fault e"
  shows "\<exists>ms. get_messages e cid d = Response 200 (MessageList ms)
           \<and> ms = filter (\<lambda>m. Message.conversationId m = cid) (messages d)
           \<and> (sorted (map timestamp (messages d)) \<longrightarrow> sorted (map timestamp ms))
           \<and> (cid \<notin> set (map Message.conversationId (messages d)) \<longrightarrow> ms = [])"
  using assms
  by (auto simp: get_messages_def Message_find_def sorted_filter filter_empty_conv)

theorem get_messages_store_order_witness:
  "get_messages (env_at 3000 ''3'') ''Y'' clock_back_db = Response 200 (MessageList [])
   \<and> get_messages (env_at 3000 ''3'') ''X''
         \<lparr>conversations = [], messages = [hello_message, hi_message]\<rparr>
       = Response 200 (MessageList [hello_message, hi_message])"
proof -
  have h: "\<not> read_fault (env_at 3000 ''3'')" by (simp add: env_at_def)
  from get_messages_store_order [OF h, of "''Y''" clock_back_db]
       get_messages_store_order [OF h, of "''X''"
         "\<lparr>conversations = [], messages = [hello_message, hi_message]\<rparr>"]
  show ?thesis
    by (simp add: clock_back_db_eq hi_message_def hello_message_def)
qed

text \<open>
  The stored log stays ascending as long as each send-message request reads a clock
  that is not behind any stored timestamp.
\<close>

lemma post_messages_keeps_timestamp_order:
  assumes "sorted (map timestamp (messages d))"
      and "list_all (\<lambda>m. timestamp m \<le> now e) (messages d)"
  shows "sorted (map timestamp
           (messages (db_after (post_messages e cid sender receiver body d sockets))))"
  using assms
  by (auto simp: post_messages_def db_after_def Message_save_def Let_def new_Message_def
        sorted_append list_all_iff split: sum.splits)

section \<open>The signaling relay\<close>

lemma relay_eq:
  "relay k sid data sockets =
     adapter_broadcast sockets (target_address k data) [sid] (event_name k) (SignalPayload data)"
  by (cases k) (simp_all add: on_offer_def on_answer_def on_ice_candidate_def socket_to_emit_def)

text \<open>
  C4, as stated, fails when the connection addressed is the sender's own: \<open>A\<close> is
  connected, the offer's \<^verbatim>\<open>receiverId\<close> is \<open>A\<close>'s address, and the relay of \<open>A\<close>'s
  offer delivers nothing.
\<close>

theorem relay_self_addressed_counterexample:
  "\<lparr>socket_id = ''A'', rooms = [''A'']\<rparr> \<in> set two_sockets
   \<and> in_room (target_address Offer (offer_to ''A'')) \<lparr>socket_id = ''A'', rooms = [''A'']\<rparr>
   \<and> relay Offer ''A'' (offer_to ''A'') two_sockets = []"
  by (simp add: two_sockets_def io_connect_def offer_to_def in_room_def on_offer_def
        socket_to_emit_def adapter_broadcast_def)

text \<open>
  C4, amended. For each of the three signaling events, every connection other than
  the sender that is in the room named by the payload's target address receives the
  payload, unchanged and under the same event name; nothing else is delivered; and
  when no connection other than the sender is in that room, the relay delivers
  nothing at all (and has no error to report: its result is the list of deliveries).
\<close>

theorem relay_to_room_except_sender:
  "(\<forall>s\<in>set sockets. in_room (target_address k data) s \<and> socket_id s \<noteq> sid \<longrightarrow>
       (socket_id s, event_name k, SignalPayload data) \<in> set (relay k sid data sockets))
   \<and> (\<forall>x\<in>set (relay k sid data sockets).
         \<exists>s\<in>set sockets. in_room (target_address k data) s \<and> socket_id s \<noteq> sid
                          \<and> x = (socket_id s, event_name k, SignalPayload data))
   \<and> ((\<forall>s\<in>set sockets. in_room (target_address k data) s \<longrightarrow> socket_id s = sid) \<longrightarrow>
         relay k sid data sockets = [])"
  by (auto simp: relay_eq adapter_broadcast_def filter_empty_conv)

theorem relay_to_room_except_sender_witness:
  "(''B'', ''offer'', SignalPayload (offer_to ''B''))
      \<in> set (relay Offer ''A'' (offer_to ''B'') two_sockets)
   \<and> relay Offer ''A'' (offer_to ''C'') two_sockets = []"
  using relay_to_room_except_sender
          [where k = Offer and data = "offer_to ''B''" and sockets = two_sockets and sid = "''A''"]
        relay_to_room_except_sender
          [where k = Offer and data = "offer_to ''C''" and sockets = two_sockets and sid = "''A''"]
  by (simp add: two_sockets_def io_connect_def offer_to_def in_room_def)

text \<open>
  C10. For each of the three signaling events, whatever the target address in the
  payload is (also the sending socket's own identifier, or a room the sender is in),
  no delivery of the relayed event goes to the socket that sent it.
\<close>

theorem relay_never_to_sender:
  "sid \<notin> fst ` set (relay k sid data sockets)"
  by (auto simp: relay_eq adapter_broadcast_def)

end
